theory Spec2Isabelle
  imports Main "HOL-Library.Word"
begin

section \<open>Python values\<close>

text \<open>
  The values \<^verbatim>\<open>json.load\<close> produces and the controller passes around: a deployment
  configuration is a \<^verbatim>\<open>dict\<close> whose keys are strings. A dictionary is an association
  list in insertion order, looked up with \<^const>\<open>map_of\<close> (the keys of a Python dictionary
  are distinct; on a list with a repeated key the lookup takes the first binding). A float
  is its IEEE 754
  binary64 bit pattern. A string is a list of 8-bit characters, so the model covers the
  strings whose code points are below 256 (container identifiers are hexadecimal).
\<close>

datatype pyval =
    PNone
  | PBool bool
  | PInt int
  | PFloat "64 word"
  | PStr string
  | PList "pyval list"
  | PDict "(string \<times> pyval) list"

type_synonym pydict = "(string \<times> pyval) list"

text \<open>Truth value testing, as \<^verbatim>\<open>not image\<close> and \<^verbatim>\<open>if name:\<close> perform it: \<^verbatim>\<open>None\<close>,
  \<^verbatim>\<open>False\<close>, zero and the empty string, list and dict are false. A float is zero when all
  bits but the sign bit are clear.\<close>

fun truthy :: "pyval \<Rightarrow> bool" where
  "truthy PNone = False"
| "truthy (PBool b) = b"
| "truthy (PInt i) = (i \<noteq> 0)"
| "truthy (PFloat w) = (take_bit 63 w \<noteq> 0)"
| "truthy (PStr s) = (s \<noteq> [])"
| "truthy (PList xs) = (xs \<noteq> [])"
| "truthy (PDict kvs) = (kvs \<noteq> [])"

text \<open>\<^verbatim>\<open>config.get(key)\<close>: the value, or \<^verbatim>\<open>None\<close> when the key is absent.\<close>

definition dict_get :: "pydict \<Rightarrow> string \<Rightarrow> pyval" where
  "dict_get d k = (case map_of d k of None \<Rightarrow> PNone | Some v \<Rightarrow> v)"

section \<open>Exceptions\<close>

text \<open>
  The instances of \<^verbatim>\<open>Exception\<close> that the calls of the controller can raise. In the
  engine's client library \<^verbatim>\<open>NotFound\<close> is a subclass of \<^verbatim>\<open>APIError\<close>, which is a subclass
  of \<^verbatim>\<open>DockerException\<close>; \<^verbatim>\<open>FileNotFoundError\<close>, \<^verbatim>\<open>IsADirectoryError\<close> and
  \<^verbatim>\<open>PermissionError\<close> are subclasses of \<^verbatim>\<open>OSError\<close>; \<^verbatim>\<open>JSONDecodeError\<close> and
  \<^verbatim>\<open>UnicodeDecodeError\<close> are subclasses of \<^verbatim>\<open>ValueError\<close>. Every value of the type is an
  instance of \<^verbatim>\<open>Exception\<close>, so a handler \<^verbatim>\<open>except Exception\<close> catches all of them;
  \<^verbatim>\<open>KeyboardInterrupt\<close> and \<^verbatim>\<open>SystemExit\<close>, which are not, are outside the model.
\<close>

datatype exn =
    NotFound
  | APIError
  | DockerException
  | FileNotFoundError
  | IsADirectoryError
  | PermissionError
  | OSError
  | JSONDecodeError
  | UnicodeDecodeError
  | ValueError
  | AttributeError
  | IndexError
  | OtherException string

fun isinstance_APIError :: "exn \<Rightarrow> bool" where
  "isinstance_APIError NotFound = True"
| "isinstance_APIError APIError = True"
| "isinstance_APIError _ = False"

fun isinstance_NotFound :: "exn \<Rightarrow> bool" where
  "isinstance_NotFound NotFound = True"
| "isinstance_NotFound _ = False"

fun isinstance_FileNotFoundError :: "exn \<Rightarrow> bool" where
  "isinstance_FileNotFoundError FileNotFoundError = True"
| "isinstance_FileNotFoundError _ = False"

fun isinstance_JSONDecodeError :: "exn \<Rightarrow> bool" where
  "isinstance_JSONDecodeError JSONDecodeError = True"
| "isinstance_JSONDecodeError _ = False"

section \<open>The container engine\<close>

text \<open>
  The engine's client is an external collaborator. Its objects are the records it returns;
  its operations are parameters of the model. The engine has state of its own, so each
  operation answers from the history of the calls made so far, and every call the
  controller makes is appended to that history.

  A container object carries its identifier, name and status. Its image is not a stored
  field: \<^verbatim>\<open>container.image\<close> is a property of the client library that asks the engine for
  the image each time it is read. The read gives an image object, gives \<^verbatim>\<open>None\<close> when the
  container records no image, or raises. An image object carries its tags and its
  identifier.
\<close>

record docker_image =
  tags :: "string list"
  img_id :: string

record container =
  c_id :: string
  c_name :: string
  c_status :: string

type_synonym bytes = "8 word list"

datatype call =
    Images_pull pyval
  | Containers_run pydict
  | Containers_list bool
  | Containers_get string
  | Container_stop container
  | Container_remove container bool
  | Container_logs container int
  | Container_image container

record engine =
  images_pull :: "call list \<Rightarrow> pyval \<Rightarrow> exn + unit"
  containers_run :: "call list \<Rightarrow> pydict \<Rightarrow> exn + container"
  containers_list :: "call list \<Rightarrow> bool \<Rightarrow> exn + container list"
  containers_get :: "call list \<Rightarrow> string \<Rightarrow> exn + container"
  container_stop :: "call list \<Rightarrow> container \<Rightarrow> exn + unit"
  container_remove :: "call list \<Rightarrow> container \<Rightarrow> bool \<Rightarrow> exn + unit"
  container_logs :: "call list \<Rightarrow> container \<Rightarrow> int \<Rightarrow> exn + bytes"
  container_image :: "call list \<Rightarrow> container \<Rightarrow> exn + docker_image option"

section \<open>Computations that call the engine and may raise\<close>

text \<open>A computation takes the history of engine calls and gives a value or a raised
  exception, together with the extended history.\<close>

type_synonym 'a prog = "call list \<Rightarrow> (exn + 'a) \<times> call list"

definition ret :: "'a \<Rightarrow> 'a prog" where
  "ret x = (\<lambda>h. (Inr x, h))"

definition raise :: "exn \<Rightarrow> 'a prog" where
  "raise e = (\<lambda>h. (Inl e, h))"

definition then_do :: "'a prog \<Rightarrow> ('a \<Rightarrow> 'b prog) \<Rightarrow> 'b prog" where
  "then_do m f = (\<lambda>h. case m h of (Inl e, h') \<Rightarrow> (Inl e, h') | (Inr x, h') \<Rightarrow> f x h')"

text \<open>\<^verbatim>\<open>try: m  except Exception as e: handler(e)\<close>\<close>

definition try_except :: "'a prog \<Rightarrow> (exn \<Rightarrow> 'a prog) \<Rightarrow> 'a prog" where
  "try_except m handler =
     (\<lambda>h. case m h of (Inl e, h') \<Rightarrow> handler e h' | (Inr x, h') \<Rightarrow> (Inr x, h'))"

definition client_images_pull :: "engine \<Rightarrow> pyval \<Rightarrow> unit prog" where
  "client_images_pull eng image' = (\<lambda>h. (images_pull eng h image', h @ [Images_pull image']))"

definition client_containers_run :: "engine \<Rightarrow> pydict \<Rightarrow> container prog" where
  "client_containers_run eng kwargs =
     (\<lambda>h. (containers_run eng h kwargs, h @ [Containers_run kwargs]))"

definition client_containers_list :: "engine \<Rightarrow> bool \<Rightarrow> container list prog" where
  "client_containers_list eng a = (\<lambda>h. (containers_list eng h a, h @ [Containers_list a]))"

definition client_containers_get :: "engine \<Rightarrow> string \<Rightarrow> container prog" where
  "client_containers_get eng container_id =
     (\<lambda>h. (containers_get eng h container_id, h @ [Containers_get container_id]))"

definition client_container_stop :: "engine \<Rightarrow> container \<Rightarrow> unit prog" where
  "client_container_stop eng c = (\<lambda>h. (container_stop eng h c, h @ [Container_stop c]))"

definition client_container_remove :: "engine \<Rightarrow> container \<Rightarrow> bool \<Rightarrow> unit prog" where
  "client_container_remove eng c force =
     (\<lambda>h. (container_remove eng h c force, h @ [Container_remove c force]))"

definition client_container_logs :: "engine \<Rightarrow> container \<Rightarrow> int \<Rightarrow> bytes prog" where
  "client_container_logs eng c tail = (\<lambda>h. (container_logs eng h c tail, h @ [Container_logs c tail]))"

definition client_container_image :: "engine \<Rightarrow> container \<Rightarrow> docker_image option prog" where
  "client_container_image eng c = (\<lambda>h. (container_image eng h c, h @ [Container_image c]))"

section \<open>The controller\<close>

text \<open>
  The methods of \<^verbatim>\<open>PodManagerController\<close> and the functions of the module, with the
  engine in place of \<^verbatim>\<open>self.client\<close>. The calls to the logger are left out: they call
  nothing on the engine and do not change what a function returns.
\<close>

subsection \<open>deploy_container\<close>

text \<open>The keyword arguments of \<^verbatim>\<open>containers.run\<close>, built key by key as the source does.\<close>

definition container_config :: "pydict \<Rightarrow> pyval \<Rightarrow> pyval \<Rightarrow> pydict" where
  "container_config config image' name =
     (let cc0 = [(''image'', image'), (''detach'', PBool True)];
          cc1 = (if truthy name then cc0 @ [(''name'', name)] else cc0);
          cc2 = (case map_of config ''environment'' of
                   Some v \<Rightarrow> cc1 @ [(''environment'', v)] | None \<Rightarrow> cc1);
          cc3 = (case map_of config ''ports'' of
                   Some v \<Rightarrow> cc2 @ [(''ports'', v)] | None \<Rightarrow> cc2);
          cc4 = (case map_of config ''command'' of
                   Some v \<Rightarrow> cc3 @ [(''command'', v)] | None \<Rightarrow> cc3);
          cc5 = (case map_of config ''volumes'' of
                   Some v \<Rightarrow> cc4 @ [(''volumes'', v)] | None \<Rightarrow> cc4)
      in cc5)"

definition deploy_container :: "engine \<Rightarrow> pydict \<Rightarrow> string option prog" where
  "deploy_container eng config =
     try_except
       (let image' = dict_get config ''image'';
            name = dict_get config ''name''
        in if \<not> truthy image' then ret None
           else then_do (try_except (client_images_pull eng image') (\<lambda>e. ret ()))
                  (\<lambda>_. then_do (client_containers_run eng (container_config config image' name))
                         (\<lambda>container. ret (Some (c_id container)))))
       (\<lambda>e. if isinstance_APIError e then ret None else ret None)"

subsection \<open>list_containers\<close>

text \<open>\<^verbatim>\<open>container.image.tags\<close> and \<^verbatim>\<open>container.image.id\<close>: a read of the image from the
  engine, then of an attribute of the result. On \<^verbatim>\<open>None\<close> the attribute read raises
  \<^verbatim>\<open>AttributeError\<close>.\<close>

definition image_tags :: "engine \<Rightarrow> container \<Rightarrow> string list prog" where
  "image_tags eng c =
     then_do (client_container_image eng c)
       (\<lambda>im. case im of None \<Rightarrow> raise AttributeError | Some i \<Rightarrow> ret (tags i))"

definition image_id :: "engine \<Rightarrow> container \<Rightarrow> string prog" where
  "image_id eng c =
     then_do (client_container_image eng c)
       (\<lambda>im. case im of None \<Rightarrow> raise AttributeError | Some i \<Rightarrow> ret (img_id i))"

text \<open>
  \<^verbatim>\<open>container.image.tags[0] if container.image.tags else container.image.id[:12]\<close>:
  the condition is evaluated first, then one of the two branches, so the image is read
  twice. Indexing an empty list raises \<^verbatim>\<open>IndexError\<close>.
\<close>

definition image_field :: "engine \<Rightarrow> container \<Rightarrow> string prog" where
  "image_field eng c =
     then_do (image_tags eng c)
       (\<lambda>ts. if ts \<noteq> []
             then then_do (image_tags eng c)
                    (\<lambda>ts'. case ts' of [] \<Rightarrow> raise IndexError | t # _ \<Rightarrow> ret t)
             else then_do (image_id eng c) (\<lambda>i. ret (take 12 i)))"

text \<open>The dictionary built for one container, given the value of its image entry: the
  identifier is cut to 12 characters.\<close>

definition info :: "container \<Rightarrow> string \<Rightarrow> pydict" where
  "info c image_entry =
     [(''id'', PStr (take 12 (c_id c))),
      (''name'', PStr (c_name c)),
      (''image'', PStr image_entry),
      (''status'', PStr (c_status c))]"

text \<open>The \<^verbatim>\<open>for\<close> loop, appending to \<^verbatim>\<open>container_info\<close>. An exception raised while a
  dictionary is built ends the loop.\<close>

fun list_containers_loop :: "engine \<Rightarrow> container list \<Rightarrow> pydict list \<Rightarrow> pydict list prog" where
  "list_containers_loop eng [] container_info = ret container_info"
| "list_containers_loop eng (c # containers) container_info =
     then_do (image_field eng c)
       (\<lambda>image_entry. list_containers_loop eng containers (container_info @ [info c image_entry]))"

text \<open>An argument with a default value is an optional argument of the model.\<close>

definition list_containers :: "engine \<Rightarrow> bool option \<Rightarrow> pydict list prog" where
  "list_containers eng all_containers_arg =
     (let all_containers = (case all_containers_arg of None \<Rightarrow> False | Some b \<Rightarrow> b)
      in try_except
           (then_do (client_containers_list eng all_containers)
              (\<lambda>containers. list_containers_loop eng containers []))
           (\<lambda>e. ret []))"

subsection \<open>stop_container and remove_container\<close>

definition stop_container :: "engine \<Rightarrow> string \<Rightarrow> bool prog" where
  "stop_container eng container_id =
     try_except
       (then_do (client_containers_get eng container_id)
          (\<lambda>c. then_do (client_container_stop eng c) (\<lambda>_. ret True)))
       (\<lambda>e. if isinstance_NotFound e then ret False else ret False)"

definition remove_container :: "engine \<Rightarrow> string \<Rightarrow> bool option \<Rightarrow> bool prog" where
  "remove_container eng container_id force_arg =
     (let force = (case force_arg of None \<Rightarrow> False | Some b \<Rightarrow> b)
      in try_except
           (then_do (client_containers_get eng container_id)
              (\<lambda>c. then_do (client_container_remove eng c force) (\<lambda>_. ret True)))
           (\<lambda>e. if isinstance_NotFound e then ret False else ret False))"

subsection \<open>get_container_logs\<close>

text \<open>A step that calls nothing and may raise, such as \<^verbatim>\<open>bytes.decode\<close>. The decoder is
  a parameter; its result is the text type of the caller.\<close>

definition lift_result :: "exn + 'a \<Rightarrow> 'a prog" where
  "lift_result r = (\<lambda>h. (r, h))"

definition get_container_logs ::
  "engine \<Rightarrow> (bytes \<Rightarrow> exn + 't) \<Rightarrow> string \<Rightarrow> int option \<Rightarrow> 't option prog" where
  "get_container_logs eng decode container_id tail_arg =
     (let tail = (case tail_arg of None \<Rightarrow> 100 | Some n \<Rightarrow> n)
      in try_except
           (then_do (client_containers_get eng container_id)
              (\<lambda>c. then_do (client_container_logs eng c tail)
                 (\<lambda>raw. then_do (lift_result (decode raw))
                    (\<lambda>logs. ret (Some logs)))))
           (\<lambda>e. if isinstance_NotFound e then ret None else ret None))"

subsection \<open>load_deployments_from_file\<close>

text \<open>
  Opening the file and \<^verbatim>\<open>json.load\<close> are parameters: \<open>open_file\<close> gives the open file or
  the exception \<^verbatim>\<open>open\<close> raises, \<open>json_load\<close> the parsed value or the exception raised
  while reading and parsing. The function has two handlers, for \<^verbatim>\<open>FileNotFoundError\<close> and
  for \<^verbatim>\<open>json.JSONDecodeError\<close>; any other exception leaves the function.
\<close>

definition load_deployments_from_file ::
  "(string \<Rightarrow> exn + 'f) \<Rightarrow> ('f \<Rightarrow> exn + pyval) \<Rightarrow> string \<Rightarrow> exn + pyval list" where
  "load_deployments_from_file open_file json_load filepath =
     (case (case open_file filepath of
              Inl e \<Rightarrow> Inl e
            | Inr f \<Rightarrow>
                (case json_load f of
                   Inl e \<Rightarrow> Inl e
                 | Inr data \<Rightarrow> Inr (case data of PList xs \<Rightarrow> xs | _ \<Rightarrow> [data]))) of
        Inr deployments \<Rightarrow> Inr deployments
      | Inl e \<Rightarrow>
          if isinstance_FileNotFoundError e then Inr []
          else if isinstance_JSONDecodeError e then Inr []
          else Inl e)"

subsection \<open>The deployment loop of main\<close>

text \<open>
  The loop of \<^verbatim>\<open>main\<close> over the loaded deployments. Each round logs the name of the
  deployment, calls \<^const>\<open>deploy_container\<close> and logs the outcome; the model returns the
  two log entries of every round. \<^verbatim>\<open>deployment.get\<close> on a value that is not a dictionary
  raises \<^verbatim>\<open>AttributeError\<close>, outside any handler.
\<close>

definition dict_get_default :: "pydict \<Rightarrow> string \<Rightarrow> pyval \<Rightarrow> pyval" where
  "dict_get_default d k dflt = (case map_of d k of None \<Rightarrow> dflt | Some v \<Rightarrow> v)"

datatype outcome = Deployment_successful string | Deployment_failed

text \<open>\<^verbatim>\<open>if container_id:\<close> on an \<^verbatim>\<open>Optional[str]\<close>: \<^verbatim>\<open>None\<close> and the empty string are
  false.\<close>

definition outcome_of :: "string option \<Rightarrow> outcome" where
  "outcome_of container_id =
     (case container_id of
        None \<Rightarrow> Deployment_failed
      | Some s \<Rightarrow> if s \<noteq> [] then Deployment_successful s else Deployment_failed)"

fun main_loop :: "engine \<Rightarrow> pyval list \<Rightarrow> (pyval \<times> outcome) list prog" where
  "main_loop eng [] = ret []"
| "main_loop eng (deployment # deployments) =
     (case deployment of
        PDict config \<Rightarrow>
          then_do (deploy_container eng config)
            (\<lambda>container_id. then_do (main_loop eng deployments)
               (\<lambda>entries. ret ((dict_get_default config ''name'' (PStr ''unnamed''),
                                  outcome_of container_id) # entries)))
      | _ \<Rightarrow> raise AttributeError)"

section \<open>The requests of one deployment\<close>

text \<open>The engine calls one application of \<^const>\<open>deploy_container\<close> makes: none when the
  image is missing or empty, otherwise a pull followed by a creation.\<close>

definition deploy_requests :: "pydict \<Rightarrow> call list" where
  "deploy_requests config =
     (let image' = dict_get config ''image''
      in if truthy image'
         then [Images_pull image',
               Containers_run (container_config config image' (dict_get config ''name''))]
         else [])"

section \<open>The image reads of a listing\<close>

text \<open>The history after a listing has built the dictionaries of the given containers: two
  image reads for each, in order.\<close>

definition after_reads :: "call list \<Rightarrow> container list \<Rightarrow> call list" where
  "after_reads h cs = h @ concat (map (\<lambda>c. [Container_image c, Container_image c]) cs)"

text \<open>The two reads of the image of one container, made from the history \<open>h\<close>, give the
  images \<open>i1\<close> and \<open>i2\<close>.\<close>

definition reads_image ::
  "engine \<Rightarrow> call list \<Rightarrow> container \<Rightarrow> docker_image \<Rightarrow> docker_image \<Rightarrow> bool" where
  "reads_image eng h c i1 i2 \<longleftrightarrow>
     container_image eng h c = Inr (Some i1)
     \<and> container_image eng (h @ [Container_image c]) c = Inr (Some i2)"

section \<open>Engines and inputs for the examples\<close>

definition nginx_container :: container where
  "nginx_container =
     \<lparr>c_id = ''abc123def4567890abc123def4567890'', c_name = ''test-nginx'',
      c_status = ''running''\<rparr>"

definition untagged_container :: container where
  "untagged_container =
     \<lparr>c_id = ''fedcba9876543210fedcba9876543210'', c_name = ''redis'',
      c_status = ''exited''\<rparr>"

definition nginx_image :: docker_image where
  "nginx_image = \<lparr>tags = [''nginx:alpine'', ''nginx:latest''], img_id = ''sha256:aaaa00001111''\<rparr>"

definition untagged_image :: docker_image where
  "untagged_image = \<lparr>tags = [], img_id = ''sha256:0123456789abcdef''\<rparr>"

text \<open>The image of a container in the examples: the container named redis runs an image
  without tags.\<close>

definition demo_image :: "container \<Rightarrow> docker_image" where
  "demo_image c = (if c_name c = ''redis'' then untagged_image else nginx_image)"

text \<open>An engine on which every operation succeeds.\<close>

definition engine_up :: engine where
  "engine_up =
     \<lparr>images_pull = (\<lambda>h i. Inr ()),
      containers_run = (\<lambda>h kw. Inr nginx_container),
      containers_list = (\<lambda>h a. Inr [nginx_container, untagged_container]),
      containers_get = (\<lambda>h r. Inr nginx_container),
      container_stop = (\<lambda>h c. Inr ()),
      container_remove = (\<lambda>h c f. Inr ()),
      container_logs = (\<lambda>h c n. Inr [104, 105, 10]),
      container_image = (\<lambda>h c. Inr (Some (demo_image c)))\<rparr>"

text \<open>An engine that raises on every operation: \<^verbatim>\<open>NotFound\<close> when asked for a
  container, \<^verbatim>\<open>APIError\<close> on creation, other exceptions elsewhere.\<close>

definition engine_down :: engine where
  "engine_down =
     \<lparr>images_pull = (\<lambda>h i. Inl DockerException),
      containers_run = (\<lambda>h kw. Inl APIError),
      containers_list = (\<lambda>h a. Inl DockerException),
      containers_get = (\<lambda>h r. Inl NotFound),
      container_stop = (\<lambda>h c. Inl APIError),
      container_remove = (\<lambda>h c f. Inl APIError),
      container_logs = (\<lambda>h c n. Inl APIError),
      container_image = (\<lambda>h c. Inl NotFound)\<rparr>"

text \<open>An engine that cannot pull and refuses the first creation request it gets.\<close>

fun is_run :: "call \<Rightarrow> bool" where
  "is_run (Containers_run kw) = True"
| "is_run _ = False"

definition engine_flaky :: engine where
  "engine_flaky =
     \<lparr>images_pull = (\<lambda>h i. Inl (OtherException ''timeout'')),
      containers_run = (\<lambda>h kw. if filter is_run h = []
                                then Inl (OtherException ''conflict'') else Inr nginx_container),
      containers_list = (\<lambda>h a. Inr []),
      containers_get = (\<lambda>h r. Inr nginx_container),
      container_stop = (\<lambda>h c. Inl (OtherException ''timeout'')),
      container_remove = (\<lambda>h c f. Inl (OtherException ''timeout'')),
      container_logs = (\<lambda>h c n. Inl (OtherException ''timeout'')),
      container_image = (\<lambda>h c. Inl (OtherException ''timeout''))\<rparr>"

definition app1 :: pydict where
  "app1 = [(''name'', PStr ''app1''), (''image'', PStr ''nginx:alpine'')]"

definition app2 :: pydict where
  "app2 = [(''name'', PStr ''app2''), (''image'', PStr ''redis:alpine'')]"

definition no_image :: pydict where
  "no_image = [(''name'', PStr ''test-container'')]"

text \<open>An engine that cannot reach the registry and is otherwise healthy.\<close>

definition engine_no_registry :: engine where
  "engine_no_registry =
     engine_up\<lparr>images_pull := (\<lambda>h i. Inl (OtherException ''no route to registry''))\<rparr>"

text \<open>An engine whose log output is not text.\<close>

definition engine_binary_logs :: engine where
  "engine_binary_logs = engine_up\<lparr>container_logs := (\<lambda>h c n. Inr [255, 254])\<rparr>"

text \<open>An engine that lists its containers and has lost their images.\<close>

definition engine_image_gone :: engine where
  "engine_image_gone = engine_up\<lparr>container_image := (\<lambda>h c. Inl NotFound)\<rparr>"

text \<open>An engine whose containers record no image.\<close>

definition engine_no_image :: engine where
  "engine_no_image = engine_up\<lparr>container_image := (\<lambda>h c. Inr None)\<rparr>"

text \<open>A decoder for the examples, giving the text as code points: bytes below 128 decode to
  themselves, any other byte is an error.\<close>

definition decode_ascii :: "bytes \<Rightarrow> exn + nat list" where
  "decode_ascii raw =
     (if filter (\<lambda>b. 128 \<le> unat b) raw = [] then Inr (map unat raw)
      else Inl UnicodeDecodeError)"

text \<open>A file system for the examples: four files, of which one is not JSON and one is not
  text, a file that may not be read, and a directory.\<close>

datatype demo_file = Deployments_json | Single_json | Broken_json | Binary_json

definition demo_open :: "string \<Rightarrow> exn + demo_file" where
  "demo_open filepath =
     (if filepath = ''/config/deployments.json'' then Inr Deployments_json
      else if filepath = ''/config/single.json'' then Inr Single_json
      else if filepath = ''/config/broken.json'' then Inr Broken_json
      else if filepath = ''/config/binary.json'' then Inr Binary_json
      else if filepath = ''/config/secret.json'' then Inl PermissionError
      else if filepath = ''/config'' then Inl IsADirectoryError
      else Inl FileNotFoundError)"

fun demo_json_load :: "demo_file \<Rightarrow> exn + pyval" where
  "demo_json_load Deployments_json = Inr (PList [PDict app1, PDict app2])"
| "demo_json_load Single_json = Inr (PDict app1)"
| "demo_json_load Broken_json = Inl JSONDecodeError"
| "demo_json_load Binary_json = Inl UnicodeDecodeError"

section \<open>Properties of deploy_container\<close>

lemmas prog_defs = ret_def raise_def then_do_def try_except_def lift_result_def

lemma deploy_container_falsy:
  "\<not> truthy (dict_get config ''image'') \<Longrightarrow> deploy_container eng config h = (Inr None, h)"
  by (simp add: deploy_container_def prog_defs Let_def)

lemma deploy_container_truthy:
  "truthy (dict_get config ''image'') \<Longrightarrow>
   deploy_container eng config h =
     ((case containers_run eng (h @ [Images_pull (dict_get config ''image'')])
             (container_config config (dict_get config ''image'') (dict_get config ''name'')) of
         Inr c \<Rightarrow> Inr (Some (c_id c))
       | Inl e \<Rightarrow> Inr None),
      h @ [Images_pull (dict_get config ''image''),
           Containers_run (container_config config (dict_get config ''image'')
                             (dict_get config ''name''))])"
  by (simp add: deploy_container_def prog_defs client_images_pull_def client_containers_run_def
      Let_def split: sum.splits)

lemma deploy_container_calls:
  "snd (deploy_container eng config h) = h @ deploy_requests config"
  by (cases "truthy (dict_get config ''image'')")
     (simp_all add: deploy_container_falsy deploy_container_truthy deploy_requests_def Let_def)

lemma deploy_container_returns:
  "\<exists>r. fst (deploy_container eng config h) = Inr r"
  by (cases "truthy (dict_get config ''image'')")
     (simp_all add: deploy_container_falsy deploy_container_truthy split: sum.splits)

text \<open>
  Claim C1. For a configuration whose image is present and non-empty: when the engine's
  creation call succeeds with a container, \<^const>\<open>deploy_container\<close> returns the identifier
  of that container, whole; when the creation call raises, whatever the exception, it
  returns \<^verbatim>\<open>None\<close>.
\<close>

theorem deploy_container_returns_engine_id:
  assumes "truthy (dict_get config ''image'')"
  shows "(containers_run eng (h @ [Images_pull (dict_get config ''image'')])
            (container_config config (dict_get config ''image'') (dict_get config ''name''))
            = Inr c
          \<longrightarrow> fst (deploy_container eng config h) = Inr (Some (c_id c)))
       \<and> (\<forall>e. containers_run eng (h @ [Images_pull (dict_get config ''image'')])
            (container_config config (dict_get config ''image'') (dict_get config ''name''))
            = Inl e
          \<longrightarrow> fst (deploy_container eng config h) = Inr None)"
  using assms by (simp add: deploy_container_truthy)

theorem deploy_container_returns_engine_id_witness:
  "truthy (dict_get app1 ''image'')
   \<and> fst (deploy_container engine_up app1 []) = Inr (Some ''abc123def4567890abc123def4567890'')
   \<and> fst (deploy_container engine_down app1 []) = Inr None
   \<and> fst (deploy_container engine_flaky app1 []) = Inr None"
  using deploy_container_returns_engine_id [of app1 engine_up "[]" nginx_container]
        deploy_container_returns_engine_id [of app1 engine_down "[]"]
        deploy_container_returns_engine_id [of app1 engine_flaky "[]"]
  by (simp add: app1_def dict_get_def engine_up_def engine_down_def engine_flaky_def
      nginx_container_def)

text \<open>
  Claim C2. When the image is missing or empty (any value that tests false), the
  function makes no call to the engine at all, so no creation request, and returns
  \<^verbatim>\<open>None\<close>. When the image tests true, whatever else the configuration holds and however
  the engine answers, the calls made are the pull followed by the creation request.
\<close>

theorem deploy_container_requires_image:
  "((map_of config ''image'' = None \<or> map_of config ''image'' = Some (PStr []))
      \<longrightarrow> deploy_container eng config h = (Inr None, h))
   \<and> (\<not> truthy (dict_get config ''image'')
      \<longrightarrow> deploy_container eng config h = (Inr None, h))
   \<and> (truthy (dict_get config ''image'')
      \<longrightarrow> snd (deploy_container eng config h) =
            h @ [Images_pull (dict_get config ''image''),
                 Containers_run (container_config config (dict_get config ''image'')
                                   (dict_get config ''name''))])"
proof (intro conjI impI)
  assume "map_of config ''image'' = None \<or> map_of config ''image'' = Some (PStr [])"
  then have "\<not> truthy (dict_get config ''image'')"
    by (auto simp: dict_get_def)
  then show "deploy_container eng config h = (Inr None, h)"
    by (rule deploy_container_falsy)
next
  assume "\<not> truthy (dict_get config ''image'')"
  then show "deploy_container eng config h = (Inr None, h)"
    by (rule deploy_container_falsy)
next
  assume "truthy (dict_get config ''image'')"
  then show "snd (deploy_container eng config h) =
            h @ [Images_pull (dict_get config ''image''),
                 Containers_run (container_config config (dict_get config ''image'')
                                   (dict_get config ''name''))]"
    by (simp add: deploy_container_truthy)
qed

theorem deploy_container_requires_image_witness:
  "deploy_container engine_up no_image [] = (Inr None, [])
   \<and> deploy_container engine_up [(''name'', PStr ''web''), (''image'', PStr [])] [] = (Inr None, [])
   \<and> deploy_container engine_up [(''image'', PInt 0)] [] = (Inr None, [])
   \<and> snd (deploy_container engine_down [(''image'', PStr ''nginx:alpine''), (''ports'', PInt 80)] [])
       = [Images_pull (PStr ''nginx:alpine''),
          Containers_run [(''image'', PStr ''nginx:alpine''), (''detach'', PBool True),
                          (''ports'', PInt 80)]]"
  using deploy_container_requires_image [of no_image engine_up "[]"]
        deploy_container_requires_image [of "[(''name'', PStr ''web''), (''image'', PStr [])]" engine_up "[]"]
        deploy_container_requires_image [of "[(''image'', PInt 0)]" engine_up "[]"]
        deploy_container_requires_image
          [of "[(''image'', PStr ''nginx:alpine''), (''ports'', PInt 80)]" engine_down "[]"]
  by (simp add: no_image_def dict_get_def container_config_def)

text \<open>
  Claim C7. When the pull raises, the creation request is still made; the result is the
  identifier whenever creation succeeds, and \<^verbatim>\<open>None\<close> only when the creation call itself
  raises.
\<close>

theorem pull_failure_not_fatal:
  assumes "truthy (dict_get config ''image'')"
      and "images_pull eng h (dict_get config ''image'') = Inl e"
  shows "snd (deploy_container eng config h) =
            h @ [Images_pull (dict_get config ''image''),
                 Containers_run (container_config config (dict_get config ''image'')
                                   (dict_get config ''name''))]
       \<and> (\<forall>c. containers_run eng (h @ [Images_pull (dict_get config ''image'')])
                 (container_config config (dict_get config ''image'') (dict_get config ''name''))
               = Inr c
             \<longrightarrow> fst (deploy_container eng config h) = Inr (Some (c_id c)))
       \<and> (fst (deploy_container eng config h) = Inr None
             \<longrightarrow> (\<exists>e'. containers_run eng (h @ [Images_pull (dict_get config ''image'')])
                    (container_config config (dict_get config ''image'') (dict_get config ''name''))
                   = Inl e'))"
  using assms(1) by (simp add: deploy_container_truthy split: sum.splits)

theorem pull_failure_not_fatal_witness:
  "truthy (dict_get app1 ''image'')
   \<and> images_pull engine_no_registry [] (dict_get app1 ''image'')
       = Inl (OtherException ''no route to registry'')
   \<and> deploy_container engine_no_registry app1 [] =
       (Inr (Some ''abc123def4567890abc123def4567890''),
        [Images_pull (PStr ''nginx:alpine''),
         Containers_run [(''image'', PStr ''nginx:alpine''), (''detach'', PBool True),
                         (''name'', PStr ''app1'')]])
   \<and> images_pull engine_flaky [] (dict_get app1 ''image'') = Inl (OtherException ''timeout'')
   \<and> fst (deploy_container engine_flaky app1 []) = Inr None
   \<and> containers_run engine_flaky ([] @ [Images_pull (dict_get app1 ''image'')])
        (container_config app1 (dict_get app1 ''image'') (dict_get app1 ''name''))
       = Inl (OtherException ''conflict'')"
  using pull_failure_not_fatal [of app1 engine_no_registry "[]" "OtherException ''no route to registry''"]
        pull_failure_not_fatal [of app1 engine_flaky "[]" "OtherException ''timeout''"]
  by (simp add: app1_def dict_get_def container_config_def engine_no_registry_def engine_up_def
      engine_flaky_def nginx_container_def prod_eq_iff deploy_container_truthy)

section \<open>Properties of list_containers\<close>

lemma image_tags_eval:
  "image_tags eng c h =
     ((case container_image eng h c of
         Inl e \<Rightarrow> Inl e
       | Inr None \<Rightarrow> Inl AttributeError
       | Inr (Some i) \<Rightarrow> Inr (tags i)),
      h @ [Container_image c])"
  by (simp add: image_tags_def client_container_image_def prog_defs
      split: sum.splits option.splits)

lemma image_id_eval:
  "image_id eng c h =
     ((case container_image eng h c of
         Inl e \<Rightarrow> Inl e
       | Inr None \<Rightarrow> Inl AttributeError
       | Inr (Some i) \<Rightarrow> Inr (img_id i)),
      h @ [Container_image c])"
  by (simp add: image_id_def client_container_image_def prog_defs
      split: sum.splits option.splits)

lemma image_field_good:
  assumes "reads_image eng h c i1 i2" and "tags i1 \<noteq> [] \<longrightarrow> tags i2 \<noteq> []"
  shows "image_field eng c h =
           (Inr (if tags i1 \<noteq> [] then hd (tags i2) else take 12 (img_id i2)),
            after_reads h [c])"
  using assms
  by (auto simp: image_field_def then_do_def ret_def raise_def image_tags_eval image_id_eval
      reads_image_def after_reads_def split: list.splits)

lemma image_field_returns:
  assumes "image_field eng c h = (Inr s, h')"
  shows "\<exists>i1 i2. reads_image eng h c i1 i2 \<and> (tags i1 \<noteq> [] \<longrightarrow> tags i2 \<noteq> [])"
  using assms
  by (auto simp: image_field_def then_do_def ret_def raise_def image_tags_eval image_id_eval
      reads_image_def split: sum.splits option.splits list.splits if_splits)

lemma image_field_bad:
  assumes "\<not> (\<exists>i1 i2. reads_image eng h c i1 i2 \<and> (tags i1 \<noteq> [] \<longrightarrow> tags i2 \<noteq> []))"
  shows "\<exists>e h'. image_field eng c h = (Inl e, h')"
proof (cases "image_field eng c h")
  case (Pair r h')
  show ?thesis
  proof (cases r)
    case (Inl e)
    with Pair show ?thesis by blast
  next
    case (Inr s)
    with Pair assms image_field_returns show ?thesis by blast
  qed
qed

lemma after_reads_Cons:
  "after_reads h (c # cs) = after_reads (after_reads h [c]) cs"
  by (simp add: after_reads_def)

lemma after_reads_Nil: "after_reads h [] = h"
  by (simp add: after_reads_def)

lemma list_containers_loop_good:
  assumes "\<forall>i<length cs. \<exists>i1 i2.
             reads_image eng (after_reads h (take i cs)) (cs ! i) i1 i2
             \<and> (tags i1 \<noteq> [] \<longrightarrow> tags i2 \<noteq> [])"
  shows "\<exists>ss. length ss = length cs
           \<and> list_containers_loop eng cs acc h =
               (Inr (acc @ map (\<lambda>(c, s). info c s) (zip cs ss)), after_reads h cs)
           \<and> (\<forall>i<length cs. \<exists>i1 i2.
                 reads_image eng (after_reads h (take i cs)) (cs ! i) i1 i2
                 \<and> ss ! i = (if tags i1 \<noteq> [] then hd (tags i2) else take 12 (img_id i2)))"
  using assms
proof (induction cs arbitrary: acc h)
  case Nil
  show ?case by (simp add: ret_def after_reads_Nil)
next
  case (Cons c cs)
  from Cons.prems [rule_format, of 0] obtain i1 i2 where
    reads: "reads_image eng h c i1 i2" and tagged: "tags i1 \<noteq> [] \<longrightarrow> tags i2 \<noteq> []"
    by (auto simp: after_reads_Nil)
  let ?s = "if tags i1 \<noteq> [] then hd (tags i2) else take 12 (img_id i2)"
  let ?h = "after_reads h [c]"
  have step: "image_field eng c h = (Inr ?s, ?h)"
    using reads tagged by (rule image_field_good)
  have later: "\<forall>j<length cs. \<exists>i1 i2.
             reads_image eng (after_reads ?h (take j cs)) (cs ! j) i1 i2
             \<and> (tags i1 \<noteq> [] \<longrightarrow> tags i2 \<noteq> [])"
  proof (intro allI impI)
    fix j assume "j < length cs"
    then have "Suc j < length (c # cs)" by simp
    from Cons.prems [rule_format, OF this]
    show "\<exists>i1 i2. reads_image eng (after_reads ?h (take j cs)) (cs ! j) i1 i2
             \<and> (tags i1 \<noteq> [] \<longrightarrow> tags i2 \<noteq> [])"
      by (simp add: after_reads_Cons [symmetric])
  qed
  from Cons.IH [OF later, of "acc @ [info c ?s]"] obtain ss where
    len: "length ss = length cs"
    and run: "list_containers_loop eng cs (acc @ [info c ?s]) ?h =
               (Inr ((acc @ [info c ?s]) @ map (\<lambda>(c, s). info c s) (zip cs ss)),
                after_reads ?h cs)"
    and each: "\<forall>j<length cs. \<exists>i1 i2.
                 reads_image eng (after_reads ?h (take j cs)) (cs ! j) i1 i2
                 \<and> ss ! j = (if tags i1 \<noteq> [] then hd (tags i2) else take 12 (img_id i2))"
    by blast
  have "length (?s # ss) = length (c # cs)"
    using len by simp
  moreover have "list_containers_loop eng (c # cs) acc h =
               (Inr (acc @ map (\<lambda>(c, s). info c s) (zip (c # cs) (?s # ss))),
                after_reads h (c # cs))"
    using step run by (simp add: then_do_def after_reads_Cons [symmetric])
  moreover have "\<forall>i<length (c # cs). \<exists>i1 i2.
                 reads_image eng (after_reads h (take i (c # cs))) ((c # cs) ! i) i1 i2
                 \<and> (?s # ss) ! i = (if tags i1 \<noteq> [] then hd (tags i2) else take 12 (img_id i2))"
  proof (intro allI impI)
    fix i assume i: "i < length (c # cs)"
    show "\<exists>i1 i2.
                 reads_image eng (after_reads h (take i (c # cs))) ((c # cs) ! i) i1 i2
                 \<and> (?s # ss) ! i = (if tags i1 \<noteq> [] then hd (tags i2) else take 12 (img_id i2))"
    proof (cases i)
      case 0
      with reads show ?thesis by (auto simp: after_reads_Nil)
    next
      case (Suc j)
      with i have "j < length cs" by simp
      with each Suc show ?thesis by (simp add: after_reads_Cons [symmetric])
    qed
  qed
  ultimately show ?case by blast
qed

lemma list_containers_loop_bad:
  assumes "\<exists>i<length cs. \<not> (\<exists>i1 i2.
             reads_image eng (after_reads h (take i cs)) (cs ! i) i1 i2
             \<and> (tags i1 \<noteq> [] \<longrightarrow> tags i2 \<noteq> []))"
  shows "\<exists>e h'. list_containers_loop eng cs acc h = (Inl e, h')"
  using assms
proof (induction cs arbitrary: acc h)
  case Nil
  then show ?case by simp
next
  case (Cons c cs)
  show ?case
  proof (cases "\<exists>i1 i2. reads_image eng h c i1 i2 \<and> (tags i1 \<noteq> [] \<longrightarrow> tags i2 \<noteq> [])")
    case False
    then obtain e h' where "image_field eng c h = (Inl e, h')"
      using image_field_bad by blast
    then show ?thesis by (simp add: then_do_def)
  next
    case True
    then obtain i1 i2 where
      reads: "reads_image eng h c i1 i2" and tagged: "tags i1 \<noteq> [] \<longrightarrow> tags i2 \<noteq> []"
      by blast
    let ?s = "if tags i1 \<noteq> [] then hd (tags i2) else take 12 (img_id i2)"
    let ?h = "after_reads h [c]"
    have step: "image_field eng c h = (Inr ?s, ?h)"
      using reads tagged by (rule image_field_good)
    from Cons.prems obtain i where
      i: "i < length (c # cs)"
      and bad: "\<not> (\<exists>i1 i2.
             reads_image eng (after_reads h (take i (c # cs))) ((c # cs) ! i) i1 i2
             \<and> (tags i1 \<noteq> [] \<longrightarrow> tags i2 \<noteq> []))"
      by blast
    have "i \<noteq> 0"
    proof
      assume "i = 0"
      with bad have "\<not> (\<exists>i1 i2. reads_image eng h c i1 i2
                            \<and> (tags i1 \<noteq> [] \<longrightarrow> tags i2 \<noteq> []))"
        by (simp add: after_reads_Nil)
      with True show False by contradiction
    qed
    then obtain j where j: "i = Suc j" by (cases i) auto
    with i have "j < length cs" by simp
    moreover have "\<not> (\<exists>i1 i2.
             reads_image eng (after_reads ?h (take j cs)) (cs ! j) i1 i2
             \<and> (tags i1 \<noteq> [] \<longrightarrow> tags i2 \<noteq> []))"
      using bad j by (simp add: after_reads_Cons [symmetric])
    ultimately have "\<exists>e h'. list_containers_loop eng cs (acc @ [info c ?s]) ?h = (Inl e, h')"
      using Cons.IH [of ?h "acc @ [info c ?s]"] by blast
    with step show ?thesis by (auto simp: then_do_def)
  qed
qed

lemma list_containers_loop_shape:
  assumes "list_containers_loop eng cs acc h = (Inr r, h')"
  shows "\<exists>ss. length ss = length cs \<and> r = acc @ map (\<lambda>(c, s). info c s) (zip cs ss)"
  using assms
proof (induction cs arbitrary: acc h)
  case Nil
  then show ?case by (simp add: ret_def)
next
  case (Cons c cs)
  from Cons.prems obtain s h1 where
    step: "image_field eng c h = (Inr s, h1)"
    and rest: "list_containers_loop eng cs (acc @ [info c s]) h1 = (Inr r, h')"
    by (auto simp: then_do_def split: prod.splits sum.splits)
  from Cons.IH [OF rest] obtain ss where
    "length ss = length cs" and "r = (acc @ [info c s]) @ map (\<lambda>(c, s). info c s) (zip cs ss)"
    by blast
  then have "length (s # ss) = length (c # cs)
             \<and> r = acc @ map (\<lambda>(c, s). info c s) (zip (c # cs) (s # ss))"
    by simp
  then show ?case by blast
qed

lemma list_containers_eval:
  assumes "containers_list eng h (case a of None \<Rightarrow> False | Some b \<Rightarrow> b) = Inr cs"
  shows "fst (list_containers eng a h) =
           (case fst (list_containers_loop eng cs []
                        (h @ [Containers_list (case a of None \<Rightarrow> False | Some b \<Rightarrow> b)])) of
              Inr r \<Rightarrow> Inr r
            | Inl e \<Rightarrow> Inr [])"
  using assms
  by (simp add: list_containers_def prog_defs client_containers_list_def Let_def
      split: prod.splits sum.splits)

lemma reads_image_engine_up:
  "reads_image engine_up h c i1 i2 \<longleftrightarrow> i1 = demo_image c \<and> i2 = demo_image c"
  by (auto simp: reads_image_def engine_up_def)

lemma info_forgets_id_tail:
  "info (c\<lparr>c_id := take 12 (c_id c)\<rparr>) s = info c s"
  by (simp add: info_def)

text \<open>
  The listing does not always return one dictionary per container: when the engine lists
  two containers and the read of their image raises, the result is the empty list.
\<close>

theorem list_containers_image_gone_counterexample:
  "containers_list engine_image_gone [] False = Inr [nginx_container, untagged_container]
   \<and> fst (list_containers engine_image_gone None []) = Inr []"
  by (simp add: list_containers_def prog_defs client_containers_list_def Let_def
      engine_image_gone_def engine_up_def image_field_def image_tags_eval)

text \<open>
  Claim C4, amended. Let the engine's list query return a sequence of containers. When
  both image reads made for every container give an image, and the second gives a tag
  wherever the first did, the function returns one dictionary per container, in the same
  order, whose image entry is the first tag of the image when the image has a tag and the
  first 12 characters of the image identifier otherwise; name and status are copied. When
  for some container an image read raises or gives no image, or the tag has gone at the
  second read, the function returns the empty list.
\<close>

theorem list_containers_projects_each:
  assumes "containers_list eng h (case a of None \<Rightarrow> False | Some b \<Rightarrow> b) = Inr cs"
  shows "((\<forall>i<length cs. \<exists>i1 i2.
             reads_image eng
               (after_reads (h @ [Containers_list (case a of None \<Rightarrow> False | Some b \<Rightarrow> b)])
                  (take i cs))
               (cs ! i) i1 i2
             \<and> (tags i1 \<noteq> [] \<longrightarrow> tags i2 \<noteq> []))
          \<longrightarrow> (\<exists>infos. fst (list_containers eng a h) = Inr infos
                 \<and> length infos = length cs
                 \<and> (\<forall>i<length cs. \<exists>i1 i2.
                      reads_image eng
                        (after_reads
                           (h @ [Containers_list (case a of None \<Rightarrow> False | Some b \<Rightarrow> b)])
                           (take i cs))
                        (cs ! i) i1 i2
                      \<and> map_of (infos ! i) ''image'' =
                          Some (PStr (if tags i1 \<noteq> [] then hd (tags i2)
                                      else take 12 (img_id i2)))
                      \<and> map_of (infos ! i) ''name'' = Some (PStr (c_name (cs ! i)))
                      \<and> map_of (infos ! i) ''status'' = Some (PStr (c_status (cs ! i))))))
       \<and> ((\<exists>i<length cs. \<not> (\<exists>i1 i2.
             reads_image eng
               (after_reads (h @ [Containers_list (case a of None \<Rightarrow> False | Some b \<Rightarrow> b)])
                  (take i cs))
               (cs ! i) i1 i2
             \<and> (tags i1 \<noteq> [] \<longrightarrow> tags i2 \<noteq> [])))
          \<longrightarrow> fst (list_containers eng a h) = Inr [])"
proof (intro conjI impI)
  let ?h = "h @ [Containers_list (case a of None \<Rightarrow> False | Some b \<Rightarrow> b)]"
  assume good: "\<forall>i<length cs. \<exists>i1 i2.
             reads_image eng (after_reads ?h (take i cs)) (cs ! i) i1 i2
             \<and> (tags i1 \<noteq> [] \<longrightarrow> tags i2 \<noteq> [])"
  from list_containers_loop_good [OF good, of "[]"] obtain ss where
    len: "length ss = length cs"
    and run: "list_containers_loop eng cs [] ?h =
               (Inr ([] @ map (\<lambda>(c, s). info c s) (zip cs ss)), after_reads ?h cs)"
    and each: "\<forall>i<length cs. \<exists>i1 i2.
                 reads_image eng (after_reads ?h (take i cs)) (cs ! i) i1 i2
                 \<and> ss ! i = (if tags i1 \<noteq> [] then hd (tags i2) else take 12 (img_id i2))"
    by blast
  let ?infos = "map (\<lambda>(c, s). info c s) (zip cs ss)"
  have result: "fst (list_containers eng a h) = Inr ?infos"
    using run by (simp add: list_containers_eval [OF assms])
  have "\<forall>i<length cs. \<exists>i1 i2.
          reads_image eng (after_reads ?h (take i cs)) (cs ! i) i1 i2
          \<and> map_of (?infos ! i) ''image'' =
              Some (PStr (if tags i1 \<noteq> [] then hd (tags i2) else take 12 (img_id i2)))
          \<and> map_of (?infos ! i) ''name'' = Some (PStr (c_name (cs ! i)))
          \<and> map_of (?infos ! i) ''status'' = Some (PStr (c_status (cs ! i)))"
  proof (intro allI impI)
    fix i assume i: "i < length cs"
    with each obtain i1 i2 where
      "reads_image eng (after_reads ?h (take i cs)) (cs ! i) i1 i2"
      "ss ! i = (if tags i1 \<noteq> [] then hd (tags i2) else take 12 (img_id i2))"
      by blast
    moreover have "?infos ! i = info (cs ! i) (ss ! i)"
      using i len by simp
    ultimately show "\<exists>i1 i2.
          reads_image eng (after_reads ?h (take i cs)) (cs ! i) i1 i2
          \<and> map_of (?infos ! i) ''image'' =
              Some (PStr (if tags i1 \<noteq> [] then hd (tags i2) else take 12 (img_id i2)))
          \<and> map_of (?infos ! i) ''name'' = Some (PStr (c_name (cs ! i)))
          \<and> map_of (?infos ! i) ''status'' = Some (PStr (c_status (cs ! i)))"
      by (auto simp: info_def)
  qed
  moreover have "length ?infos = length cs"
    using len by simp
  ultimately show "\<exists>infos. fst (list_containers eng a h) = Inr infos
                 \<and> length infos = length cs
                 \<and> (\<forall>i<length cs. \<exists>i1 i2.
                      reads_image eng (after_reads ?h (take i cs)) (cs ! i) i1 i2
                      \<and> map_of (infos ! i) ''image'' =
                          Some (PStr (if tags i1 \<noteq> [] then hd (tags i2)
                                      else take 12 (img_id i2)))
                      \<and> map_of (infos ! i) ''name'' = Some (PStr (c_name (cs ! i)))
                      \<and> map_of (infos ! i) ''status'' = Some (PStr (c_status (cs ! i))))"
    using result by blast
next
  let ?h = "h @ [Containers_list (case a of None \<Rightarrow> False | Some b \<Rightarrow> b)]"
  assume bad: "\<exists>i<length cs. \<not> (\<exists>i1 i2.
             reads_image eng (after_reads ?h (take i cs)) (cs ! i) i1 i2
             \<and> (tags i1 \<noteq> [] \<longrightarrow> tags i2 \<noteq> []))"
  from list_containers_loop_bad [OF bad, of "[]"] obtain e h' where
    "list_containers_loop eng cs [] ?h = (Inl e, h')"
    by blast
  then show "fst (list_containers eng a h) = Inr []"
    by (simp add: list_containers_eval [OF assms])
qed

theorem list_containers_projects_each_witness:
  "containers_list engine_up [] False = Inr [nginx_container, untagged_container]
   \<and> (\<exists>infos. fst (list_containers engine_up None []) = Inr infos
         \<and> length infos = 2
         \<and> map_of (infos ! 0) ''image'' = Some (PStr ''nginx:alpine'')
         \<and> map_of (infos ! 1) ''image'' = Some (PStr ''sha256:01234'')
         \<and> map_of (infos ! 0) ''name'' = Some (PStr ''test-nginx'')
         \<and> map_of (infos ! 1) ''name'' = Some (PStr ''redis''))
   \<and> containers_list engine_no_image [] False = Inr [nginx_container, untagged_container]
   \<and> fst (list_containers engine_no_image None []) = Inr []"
proof -
  let ?cs = "[nginx_container, untagged_container]"
  let ?a = "case None of None \<Rightarrow> False | Some b \<Rightarrow> b"
  have listed: "containers_list engine_up [] ?a = Inr ?cs"
    by (simp add: engine_up_def)
  have good: "\<forall>i<length ?cs. \<exists>i1 i2.
      reads_image engine_up (after_reads ([] @ [Containers_list ?a]) (take i ?cs)) (?cs ! i) i1 i2
      \<and> (tags i1 \<noteq> [] \<longrightarrow> tags i2 \<noteq> [])"
    by (simp add: reads_image_engine_up)
  from list_containers_projects_each [OF listed, THEN conjunct1, THEN mp, OF good]
  obtain infos where
    infos: "fst (list_containers engine_up None []) = Inr infos"
    and len: "length infos = length ?cs"
    and each: "\<forall>i<length ?cs. \<exists>i1 i2.
      reads_image engine_up (after_reads ([] @ [Containers_list ?a]) (take i ?cs)) (?cs ! i) i1 i2
      \<and> map_of (infos ! i) ''image'' =
          Some (PStr (if tags i1 \<noteq> [] then hd (tags i2) else take 12 (img_id i2)))
      \<and> map_of (infos ! i) ''name'' = Some (PStr (c_name (?cs ! i)))
      \<and> map_of (infos ! i) ''status'' = Some (PStr (c_status (?cs ! i)))"
    by blast
  have first: "map_of (infos ! 0) ''image'' = Some (PStr ''nginx:alpine'')
               \<and> map_of (infos ! 0) ''name'' = Some (PStr ''test-nginx'')"
    using each [rule_format, of 0]
    by (auto simp: reads_image_engine_up demo_image_def nginx_container_def nginx_image_def)
  have second: "map_of (infos ! 1) ''image'' = Some (PStr ''sha256:01234'')
               \<and> map_of (infos ! 1) ''name'' = Some (PStr ''redis'')"
    using each [rule_format, of 1]
    by (auto simp: reads_image_engine_up demo_image_def untagged_container_def untagged_image_def)
  have listed': "containers_list engine_no_image [] ?a = Inr ?cs"
    by (simp add: engine_no_image_def engine_up_def)
  have bad: "\<exists>i<length ?cs. \<not> (\<exists>i1 i2.
      reads_image engine_no_image (after_reads ([] @ [Containers_list ?a]) (take i ?cs))
        (?cs ! i) i1 i2
      \<and> (tags i1 \<noteq> [] \<longrightarrow> tags i2 \<noteq> []))"
    by (rule exI [of _ 0]) (simp add: reads_image_def engine_no_image_def)
  have none: "fst (list_containers engine_no_image None []) = Inr []"
    by (rule list_containers_projects_each [OF listed', THEN conjunct2, THEN mp, OF bad])
  have "length infos = 2"
    using len by simp
  with infos first second have
    "\<exists>infos. fst (list_containers engine_up None []) = Inr infos
         \<and> length infos = 2
         \<and> map_of (infos ! 0) ''image'' = Some (PStr ''nginx:alpine'')
         \<and> map_of (infos ! 1) ''image'' = Some (PStr ''sha256:01234'')
         \<and> map_of (infos ! 0) ''name'' = Some (PStr ''test-nginx'')
         \<and> map_of (infos ! 1) ''name'' = Some (PStr ''redis'')"
    by blast
  moreover have "containers_list engine_up [] False = Inr ?cs"
    using listed by simp
  moreover have "containers_list engine_no_image [] False = Inr ?cs"
    using listed' by simp
  ultimately show ?thesis using none by blast
qed

text \<open>
  Claim C8. When the engine's list query raises, whatever the exception, the function
  returns the empty list and raises nothing.
\<close>

theorem list_containers_failure_empty:
  assumes "containers_list eng h (case a of None \<Rightarrow> False | Some b \<Rightarrow> b) = Inl e"
  shows "list_containers eng a h =
           (Inr [], h @ [Containers_list (case a of None \<Rightarrow> False | Some b \<Rightarrow> b)])"
  using assms
  by (simp add: list_containers_def prog_defs client_containers_list_def Let_def)

theorem list_containers_failure_empty_witness:
  "containers_list engine_down [] True = Inl DockerException
   \<and> list_containers engine_down (Some True) [] = (Inr [], [Containers_list True])"
  using list_containers_failure_empty [of engine_down "[]" "Some True" DockerException]
  by (simp add: engine_down_def)

text \<open>
  Claim C10. The function returns the empty list or one dictionary per listed container.
  The id entry of every dictionary it returns is the first 12 characters of the identifier
  of the container at the same position, and the dictionary holds nothing else of the
  identifier. For an identifier longer than 12 characters there is a container with
  another identifier and the same dictionary, so the identifier cannot be recovered from
  the dictionary.
\<close>

theorem list_containers_id_truncated:
  assumes "containers_list eng h (case a of None \<Rightarrow> False | Some b \<Rightarrow> b) = Inr cs"
  shows "(\<exists>infos. fst (list_containers eng a h) = Inr infos
            \<and> (infos = [] \<or> length infos = length cs)
            \<and> (\<forall>i<length infos.
                 map_of (infos ! i) ''id'' = Some (PStr (take 12 (c_id (cs ! i))))
                 \<and> (\<exists>s. infos ! i = info (cs ! i) s)))
       \<and> (\<forall>c s. 12 < length (c_id c) \<longrightarrow> (\<exists>c'. c_id c' \<noteq> c_id c \<and> info c' s = info c s))"
proof
  let ?h = "h @ [Containers_list (case a of None \<Rightarrow> False | Some b \<Rightarrow> b)]"
  show "\<exists>infos. fst (list_containers eng a h) = Inr infos
            \<and> (infos = [] \<or> length infos = length cs)
            \<and> (\<forall>i<length infos.
                 map_of (infos ! i) ''id'' = Some (PStr (take 12 (c_id (cs ! i))))
                 \<and> (\<exists>s. infos ! i = info (cs ! i) s))"
  proof (cases "list_containers_loop eng cs [] ?h")
    case (Pair r h')
    show ?thesis
    proof (cases r)
      case (Inl e)
      with Pair have "fst (list_containers eng a h) = Inr []"
        by (simp add: list_containers_eval [OF assms])
      then show ?thesis by simp
    next
      case (Inr infos)
      with Pair have result: "fst (list_containers eng a h) = Inr infos"
        by (simp add: list_containers_eval [OF assms])
      from Pair Inr list_containers_loop_shape [of eng cs "[]" ?h infos h'] obtain ss where
        len: "length ss = length cs"
        and infos: "infos = map (\<lambda>(c, s). info c s) (zip cs ss)"
        by auto
      have "length infos = length cs"
        using len infos by simp
      moreover have "\<forall>i<length infos.
                 map_of (infos ! i) ''id'' = Some (PStr (take 12 (c_id (cs ! i))))
                 \<and> (\<exists>s. infos ! i = info (cs ! i) s)"
      proof (intro allI impI)
        fix i assume "i < length infos"
        then have "infos ! i = info (cs ! i) (ss ! i)"
          using len infos by simp
        then show "map_of (infos ! i) ''id'' = Some (PStr (take 12 (c_id (cs ! i))))
                 \<and> (\<exists>s. infos ! i = info (cs ! i) s)"
          by (auto simp: info_def)
      qed
      ultimately show ?thesis using result by blast
    qed
  qed
next
  show "\<forall>c s. 12 < length (c_id c) \<longrightarrow> (\<exists>c'. c_id c' \<noteq> c_id c \<and> info c' s = info c s)"
  proof (intro allI impI)
    fix c :: container and s :: string
    assume long: "12 < length (c_id c)"
    let ?c' = "c\<lparr>c_id := take 12 (c_id c)\<rparr>"
    have "length (c_id ?c') = 12" using long by simp
    then have "c_id ?c' \<noteq> c_id c" using long by auto
    moreover have "info ?c' s = info c s" by (rule info_forgets_id_tail)
    ultimately show "\<exists>c'. c_id c' \<noteq> c_id c \<and> info c' s = info c s" by blast
  qed
qed

theorem list_containers_id_truncated_witness:
  "containers_list engine_up [] False = Inr [nginx_container, untagged_container]
   \<and> (\<exists>infos. fst (list_containers engine_up None []) = Inr infos
         \<and> length infos = 2
         \<and> map_of (infos ! 0) ''id'' = Some (PStr ''abc123def456'')
         \<and> map_of (infos ! 1) ''id'' = Some (PStr ''fedcba987654''))
   \<and> 12 < length (c_id nginx_container)
   \<and> (\<exists>c'. c_id c' \<noteq> c_id nginx_container
           \<and> info c' ''nginx:alpine'' = info nginx_container ''nginx:alpine'')"
proof -
  let ?cs = "[nginx_container, untagged_container]"
  let ?a = "case None of None \<Rightarrow> False | Some b \<Rightarrow> b"
  have listed: "containers_list engine_up [] ?a = Inr ?cs"
    by (simp add: engine_up_def)
  note fact = list_containers_id_truncated [OF listed]
  from fact obtain infos where
    infos: "fst (list_containers engine_up None []) = Inr infos"
    and len: "infos = [] \<or> length infos = length ?cs"
    and ids: "\<forall>i<length infos.
                map_of (infos ! i) ''id'' = Some (PStr (take 12 (c_id (?cs ! i))))
                \<and> (\<exists>s. infos ! i = info (?cs ! i) s)"
    by blast
  have "fst (list_containers engine_up None []) =
          Inr [info nginx_container ''nginx:alpine'', info untagged_container ''sha256:01234'']"
    by (simp add: list_containers_def prog_defs client_containers_list_def Let_def
        engine_up_def image_field_def image_tags_eval image_id_eval demo_image_def
        nginx_container_def untagged_container_def nginx_image_def untagged_image_def)
  with infos have "infos =
          [info nginx_container ''nginx:alpine'', info untagged_container ''sha256:01234'']"
    by simp
  then have len2: "length infos = 2"
    by simp
  have "map_of (infos ! 0) ''id'' = Some (PStr ''abc123def456'')"
    using ids [rule_format, of 0] len2 by (simp add: nginx_container_def)
  moreover have "map_of (infos ! 1) ''id'' = Some (PStr ''fedcba987654'')"
    using ids [rule_format, of 1] len2 by (simp add: untagged_container_def)
  moreover have long: "12 < length (c_id nginx_container)"
    by (simp add: nginx_container_def)
  moreover have "\<exists>c'. c_id c' \<noteq> c_id nginx_container
           \<and> info c' ''nginx:alpine'' = info nginx_container ''nginx:alpine''"
    using fact long by blast
  moreover have "containers_list engine_up [] False = Inr ?cs"
    using listed by simp
  ultimately show ?thesis using infos len2 by blast
qed

section \<open>Properties of stop_container and remove_container\<close>

lemma stop_container_eval:
  "stop_container eng container_id h =
     (case containers_get eng h container_id of
        Inl e \<Rightarrow> (Inr False, h @ [Containers_get container_id])
      | Inr c \<Rightarrow>
          (case container_stop eng (h @ [Containers_get container_id]) c of
             Inl e \<Rightarrow> (Inr False, h @ [Containers_get container_id, Container_stop c])
           | Inr u \<Rightarrow> (Inr True, h @ [Containers_get container_id, Container_stop c])))"
  by (simp add: stop_container_def prog_defs client_containers_get_def client_container_stop_def
      split: sum.splits)

lemma remove_container_eval:
  "remove_container eng container_id force_arg h =
     (case containers_get eng h container_id of
        Inl e \<Rightarrow> (Inr False, h @ [Containers_get container_id])
      | Inr c \<Rightarrow>
          (case container_remove eng (h @ [Containers_get container_id]) c
                  (case force_arg of None \<Rightarrow> False | Some b \<Rightarrow> b) of
             Inl e \<Rightarrow> (Inr False, h @ [Containers_get container_id,
                  Container_remove c (case force_arg of None \<Rightarrow> False | Some b \<Rightarrow> b)])
           | Inr u \<Rightarrow> (Inr True, h @ [Containers_get container_id,
                  Container_remove c (case force_arg of None \<Rightarrow> False | Some b \<Rightarrow> b)])))"
  by (simp add: remove_container_def prog_defs client_containers_get_def
      client_container_remove_def Let_def split: sum.splits)

text \<open>
  Claim C5. Both functions return a boolean and never raise. The boolean is \<^verbatim>\<open>True\<close>
  exactly when the engine resolves the container and then stops (removes) it without
  raising. The removal request carries the force flag given, and \<^verbatim>\<open>False\<close> when none is
  given. When resolving raises, or stopping (removing) raises, the result is \<^verbatim>\<open>False\<close>
  whatever the exception.
\<close>

theorem stop_remove_report_success:
  "fst (stop_container eng container_id h) =
     Inr (\<exists>c. containers_get eng h container_id = Inr c
             \<and> container_stop eng (h @ [Containers_get container_id]) c = Inr ())
   \<and> fst (remove_container eng container_id force_arg h) =
     Inr (\<exists>c. containers_get eng h container_id = Inr c
             \<and> container_remove eng (h @ [Containers_get container_id]) c
                  (case force_arg of None \<Rightarrow> False | Some b \<Rightarrow> b) = Inr ())
   \<and> (\<forall>c. containers_get eng h container_id = Inr c \<longrightarrow>
          snd (stop_container eng container_id h) =
            h @ [Containers_get container_id, Container_stop c]
        \<and> snd (remove_container eng container_id (Some force) h) =
            h @ [Containers_get container_id, Container_remove c force]
        \<and> snd (remove_container eng container_id None h) =
            h @ [Containers_get container_id, Container_remove c False])
   \<and> (\<forall>e. containers_get eng h container_id = Inl e \<longrightarrow>
          stop_container eng container_id h = (Inr False, h @ [Containers_get container_id])
        \<and> remove_container eng container_id force_arg h =
            (Inr False, h @ [Containers_get container_id]))
   \<and> (\<forall>c e. containers_get eng h container_id = Inr c
          \<and> container_stop eng (h @ [Containers_get container_id]) c = Inl e \<longrightarrow>
          fst (stop_container eng container_id h) = Inr False)
   \<and> (\<forall>c e. containers_get eng h container_id = Inr c
          \<and> container_remove eng (h @ [Containers_get container_id]) c
               (case force_arg of None \<Rightarrow> False | Some b \<Rightarrow> b) = Inl e \<longrightarrow>
          fst (remove_container eng container_id force_arg h) = Inr False)"
proof (intro conjI)
  show "fst (stop_container eng container_id h) =
     Inr (\<exists>c. containers_get eng h container_id = Inr c
             \<and> container_stop eng (h @ [Containers_get container_id]) c = Inr ())"
    by (simp add: stop_container_eval split: sum.splits)
  show "fst (remove_container eng container_id force_arg h) =
     Inr (\<exists>c. containers_get eng h container_id = Inr c
             \<and> container_remove eng (h @ [Containers_get container_id]) c
                  (case force_arg of None \<Rightarrow> False | Some b \<Rightarrow> b) = Inr ())"
    by (simp add: remove_container_eval split: sum.splits)
  show "\<forall>c. containers_get eng h container_id = Inr c \<longrightarrow>
          snd (stop_container eng container_id h) =
            h @ [Containers_get container_id, Container_stop c]
        \<and> snd (remove_container eng container_id (Some force) h) =
            h @ [Containers_get container_id, Container_remove c force]
        \<and> snd (remove_container eng container_id None h) =
            h @ [Containers_get container_id, Container_remove c False]"
    by (simp add: stop_container_eval remove_container_eval split: sum.splits)
  show "\<forall>e. containers_get eng h container_id = Inl e \<longrightarrow>
          stop_container eng container_id h = (Inr False, h @ [Containers_get container_id])
        \<and> remove_container eng container_id force_arg h =
            (Inr False, h @ [Containers_get container_id])"
    by (simp add: stop_container_eval remove_container_eval)
  show "\<forall>c e. containers_get eng h container_id = Inr c
          \<and> container_stop eng (h @ [Containers_get container_id]) c = Inl e \<longrightarrow>
          fst (stop_container eng container_id h) = Inr False"
    by (simp add: stop_container_eval)
  show "\<forall>c e. containers_get eng h container_id = Inr c
          \<and> container_remove eng (h @ [Containers_get container_id]) c
               (case force_arg of None \<Rightarrow> False | Some b \<Rightarrow> b) = Inl e \<longrightarrow>
          fst (remove_container eng container_id force_arg h) = Inr False"
    by (simp add: remove_container_eval)
qed

theorem stop_remove_report_success_witness:
  "stop_container engine_up ''test123'' [] =
     (Inr True, [Containers_get ''test123'', Container_stop nginx_container])
   \<and> remove_container engine_up ''test123'' None [] =
     (Inr True, [Containers_get ''test123'', Container_remove nginx_container False])
   \<and> remove_container engine_up ''test123'' (Some True) [] =
     (Inr True, [Containers_get ''test123'', Container_remove nginx_container True])
   \<and> stop_container engine_down ''gone'' [] = (Inr False, [Containers_get ''gone''])
   \<and> remove_container engine_down ''gone'' None [] = (Inr False, [Containers_get ''gone''])
   \<and> fst (stop_container engine_flaky ''test123'' []) = Inr False
   \<and> fst (remove_container engine_flaky ''test123'' (Some True) []) = Inr False"
  using stop_remove_report_success [of engine_up "''test123''" "[]" None False]
        stop_remove_report_success [of engine_up "''test123''" "[]" "Some True" True]
        stop_remove_report_success [of engine_down "''gone''" "[]" None False]
        stop_remove_report_success [of engine_flaky "''test123''" "[]" "Some True" True]
  by (simp add: engine_up_def engine_down_def engine_flaky_def prod_eq_iff)

section \<open>Properties of get_container_logs\<close>

lemma get_container_logs_eval:
  "get_container_logs eng decode container_id tail_arg h =
     (case containers_get eng h container_id of
        Inl e \<Rightarrow> (Inr None, h @ [Containers_get container_id])
      | Inr c \<Rightarrow>
          (case container_logs eng (h @ [Containers_get container_id]) c
                  (case tail_arg of None \<Rightarrow> 100 | Some n \<Rightarrow> n) of
             Inl e \<Rightarrow> Inr None
           | Inr raw \<Rightarrow> (case decode raw of Inl e \<Rightarrow> Inr None | Inr logs \<Rightarrow> Inr (Some logs)),
           h @ [Containers_get container_id,
                Container_logs c (case tail_arg of None \<Rightarrow> 100 | Some n \<Rightarrow> n)]))"
  by (simp add: get_container_logs_def prog_defs client_containers_get_def
      client_container_logs_def Let_def split: sum.splits)

text \<open>
  Claim C9. The function resolves the container, asks the engine for its log output with
  the tail length given, 100 when none is given, and returns the decoded text. When
  resolving, fetching or decoding raises, it returns \<^verbatim>\<open>None\<close>; it never raises.
\<close>

theorem get_container_logs_tail:
  "(\<forall>c raw logs.
      containers_get eng h container_id = Inr c
      \<and> container_logs eng (h @ [Containers_get container_id]) c
           (case tail_arg of None \<Rightarrow> 100 | Some n \<Rightarrow> n) = Inr raw
      \<and> decode raw = Inr logs
      \<longrightarrow> get_container_logs eng decode container_id tail_arg h =
            (Inr (Some logs),
             h @ [Containers_get container_id,
                  Container_logs c (case tail_arg of None \<Rightarrow> 100 | Some n \<Rightarrow> n)]))
   \<and> (\<forall>c. containers_get eng h container_id = Inr c
      \<longrightarrow> snd (get_container_logs eng decode container_id None h) =
            h @ [Containers_get container_id, Container_logs c 100])
   \<and> (\<forall>e. containers_get eng h container_id = Inl e
      \<longrightarrow> fst (get_container_logs eng decode container_id tail_arg h) = Inr None)
   \<and> (\<forall>c e. containers_get eng h container_id = Inr c
      \<and> container_logs eng (h @ [Containers_get container_id]) c
           (case tail_arg of None \<Rightarrow> 100 | Some n \<Rightarrow> n) = Inl e
      \<longrightarrow> fst (get_container_logs eng decode container_id tail_arg h) = Inr None)
   \<and> (\<forall>c raw e. containers_get eng h container_id = Inr c
      \<and> container_logs eng (h @ [Containers_get container_id]) c
           (case tail_arg of None \<Rightarrow> 100 | Some n \<Rightarrow> n) = Inr raw
      \<and> decode raw = Inl e
      \<longrightarrow> fst (get_container_logs eng decode container_id tail_arg h) = Inr None)
   \<and> (\<exists>r. fst (get_container_logs eng decode container_id tail_arg h) = Inr r)"
  by (simp add: get_container_logs_eval split: sum.splits)

theorem get_container_logs_tail_witness:
  "get_container_logs engine_up decode_ascii ''web'' None [] =
     (Inr (Some [104, 105, 10]),
      [Containers_get ''web'', Container_logs nginx_container 100])
   \<and> get_container_logs engine_up decode_ascii ''web'' (Some 5) [] =
     (Inr (Some [104, 105, 10]),
      [Containers_get ''web'', Container_logs nginx_container 5])
   \<and> fst (get_container_logs engine_down decode_ascii ''gone'' None []) = Inr None
   \<and> fst (get_container_logs engine_flaky decode_ascii ''web'' None []) = Inr None
   \<and> fst (get_container_logs engine_binary_logs decode_ascii ''web'' None []) = Inr None"
  using get_container_logs_tail [of engine_up "[]" "''web''" None decode_ascii]
        get_container_logs_tail [of engine_up "[]" "''web''" "Some 5" decode_ascii]
        get_container_logs_tail [of engine_down "[]" "''gone''" None decode_ascii]
        get_container_logs_tail [of engine_flaky "[]" "''web''" None decode_ascii]
        get_container_logs_tail [of engine_binary_logs "[]" "''web''" None decode_ascii]
  by (simp add: engine_up_def engine_down_def engine_flaky_def engine_binary_logs_def
      decode_ascii_def prod_eq_iff)

section \<open>Properties of load_deployments_from_file\<close>

lemma isinstance_FileNotFoundError_iff:
  "isinstance_FileNotFoundError e \<longleftrightarrow> e = FileNotFoundError"
  by (cases e) simp_all

lemma isinstance_JSONDecodeError_iff:
  "isinstance_JSONDecodeError e \<longleftrightarrow> e = JSONDecodeError"
  by (cases e) simp_all

text \<open>
  The function does raise: opening a path that names a directory raises
  \<^verbatim>\<open>IsADirectoryError\<close>, which neither handler catches.
\<close>

theorem load_deployments_raises_counterexample:
  "load_deployments_from_file demo_open demo_json_load ''/config'' = Inl IsADirectoryError"
  by (simp add: load_deployments_from_file_def demo_open_def)

text \<open>
  Claim C3, amended. A file holding one JSON object gives the one-element list of that
  object; a file holding a JSON array gives the elements of the array, in order; a missing
  file (\<^verbatim>\<open>FileNotFoundError\<close>) gives the empty list; content that \<^verbatim>\<open>json.load\<close> rejects
  with \<^verbatim>\<open>JSONDecodeError\<close> gives the empty list. Every other exception raised by opening
  the file or by reading and parsing it is raised to the caller unchanged, and the
  function raises nothing else.
\<close>

theorem load_deployments_from_file_cases:
  "(\<forall>f kvs. open_file filepath = Inr f \<and> json_load f = Inr (PDict kvs)
      \<longrightarrow> load_deployments_from_file open_file json_load filepath = Inr [PDict kvs])
   \<and> (\<forall>f xs. open_file filepath = Inr f \<and> json_load f = Inr (PList xs)
      \<longrightarrow> load_deployments_from_file open_file json_load filepath = Inr xs)
   \<and> (open_file filepath = Inl FileNotFoundError
      \<longrightarrow> load_deployments_from_file open_file json_load filepath = Inr [])
   \<and> (\<forall>f. open_file filepath = Inr f \<and> json_load f = Inl JSONDecodeError
      \<longrightarrow> load_deployments_from_file open_file json_load filepath = Inr [])
   \<and> (\<forall>e. open_file filepath = Inl e \<and> e \<noteq> FileNotFoundError \<and> e \<noteq> JSONDecodeError
      \<longrightarrow> load_deployments_from_file open_file json_load filepath = Inl e)
   \<and> (\<forall>f e. open_file filepath = Inr f \<and> json_load f = Inl e
          \<and> e \<noteq> FileNotFoundError \<and> e \<noteq> JSONDecodeError
      \<longrightarrow> load_deployments_from_file open_file json_load filepath = Inl e)
   \<and> (\<forall>e. load_deployments_from_file open_file json_load filepath = Inl e
      \<longrightarrow> e \<noteq> FileNotFoundError \<and> e \<noteq> JSONDecodeError
          \<and> (open_file filepath = Inl e
              \<or> (\<exists>f. open_file filepath = Inr f \<and> json_load f = Inl e)))"
proof (intro conjI allI impI)
  fix e
  assume raised: "load_deployments_from_file open_file json_load filepath = Inl e"
  show "e \<noteq> FileNotFoundError"
    using raised by (auto simp: load_deployments_from_file_def split: sum.splits if_splits)
  show "e \<noteq> JSONDecodeError"
    using raised by (auto simp: load_deployments_from_file_def split: sum.splits if_splits)
  show "open_file filepath = Inl e \<or> (\<exists>f. open_file filepath = Inr f \<and> json_load f = Inl e)"
    using raised by (auto simp: load_deployments_from_file_def split: sum.splits if_splits)
qed (simp_all add: load_deployments_from_file_def isinstance_FileNotFoundError_iff
      isinstance_JSONDecodeError_iff)

theorem load_deployments_from_file_cases_witness:
  "load_deployments_from_file demo_open demo_json_load ''/config/single.json'' = Inr [PDict app1]
   \<and> load_deployments_from_file demo_open demo_json_load ''/config/deployments.json''
       = Inr [PDict app1, PDict app2]
   \<and> load_deployments_from_file demo_open demo_json_load ''/nonexistent/file.json'' = Inr []
   \<and> load_deployments_from_file demo_open demo_json_load ''/config/broken.json'' = Inr []
   \<and> demo_open ''/config'' = Inl IsADirectoryError
   \<and> load_deployments_from_file demo_open demo_json_load ''/config'' = Inl IsADirectoryError
   \<and> demo_open ''/config/secret.json'' = Inl PermissionError
   \<and> load_deployments_from_file demo_open demo_json_load ''/config/secret.json''
       = Inl PermissionError
   \<and> demo_open ''/config/binary.json'' = Inr Binary_json
   \<and> demo_json_load Binary_json = Inl UnicodeDecodeError
   \<and> load_deployments_from_file demo_open demo_json_load ''/config/binary.json''
       = Inl UnicodeDecodeError"
  using load_deployments_from_file_cases [of demo_open "''/config/single.json''" demo_json_load]
        load_deployments_from_file_cases [of demo_open "''/config/deployments.json''" demo_json_load]
        load_deployments_from_file_cases [of demo_open "''/nonexistent/file.json''" demo_json_load]
        load_deployments_from_file_cases [of demo_open "''/config/broken.json''" demo_json_load]
        load_deployments_from_file_cases [of demo_open "''/config''" demo_json_load]
        load_deployments_from_file_cases [of demo_open "''/config/secret.json''" demo_json_load]
        load_deployments_from_file_cases [of demo_open "''/config/binary.json''" demo_json_load]
  by (simp add: demo_open_def load_deployments_from_file_def)

section \<open>Properties of the deployment loop\<close>

lemma deploy_container_step:
  "\<exists>r. deploy_container eng config h = (Inr r, h @ deploy_requests config)"
  using deploy_container_returns [of eng config h] deploy_container_calls [of eng config h]
  by (auto simp: prod_eq_iff)

lemma main_loop_rounds:
  "\<exists>entries.
     main_loop eng (map PDict cfgs) h = (Inr entries, h @ concat (map deploy_requests cfgs))
     \<and> length entries = length cfgs
     \<and> (\<forall>i<length cfgs. \<exists>r.
          fst (deploy_container eng (cfgs ! i) (h @ concat (map deploy_requests (take i cfgs))))
            = Inr r
          \<and> entries ! i = (dict_get_default (cfgs ! i) ''name'' (PStr ''unnamed''), outcome_of r))"
proof (induction cfgs arbitrary: h)
  case Nil
  show ?case by (simp add: ret_def)
next
  case (Cons c cs)
  obtain r where r: "deploy_container eng c h = (Inr r, h @ deploy_requests c)"
    using deploy_container_step by blast
  obtain entries where
    run: "main_loop eng (map PDict cs) (h @ deploy_requests c) =
            (Inr entries, (h @ deploy_requests c) @ concat (map deploy_requests cs))"
    and len: "length entries = length cs"
    and each: "\<forall>i<length cs. \<exists>r.
          fst (deploy_container eng (cs ! i)
                 ((h @ deploy_requests c) @ concat (map deploy_requests (take i cs)))) = Inr r
          \<and> entries ! i = (dict_get_default (cs ! i) ''name'' (PStr ''unnamed''), outcome_of r)"
    using Cons.IH [of "h @ deploy_requests c"] by blast
  let ?entries = "(dict_get_default c ''name'' (PStr ''unnamed''), outcome_of r) # entries"
  have "main_loop eng (map PDict (c # cs)) h =
          (Inr ?entries, h @ concat (map deploy_requests (c # cs)))"
    using r run by (simp add: then_do_def ret_def)
  moreover have "length ?entries = length (c # cs)"
    using len by simp
  moreover have "\<forall>i<length (c # cs). \<exists>r.
          fst (deploy_container eng ((c # cs) ! i)
                 (h @ concat (map deploy_requests (take i (c # cs))))) = Inr r
          \<and> ?entries ! i = (dict_get_default ((c # cs) ! i) ''name'' (PStr ''unnamed''), outcome_of r)"
  proof (intro allI impI)
    fix i assume i: "i < length (c # cs)"
    show "\<exists>r. fst (deploy_container eng ((c # cs) ! i)
                 (h @ concat (map deploy_requests (take i (c # cs))))) = Inr r
          \<and> ?entries ! i = (dict_get_default ((c # cs) ! i) ''name'' (PStr ''unnamed''), outcome_of r)"
    proof (cases i)
      case 0
      then show ?thesis using r by simp
    next
      case (Suc j)
      then have "j < length cs" using i by simp
      then show ?thesis using each Suc by simp
    qed
  qed
  ultimately show ?case by blast
qed

text \<open>
  A loaded value that is not a dictionary ends the loop with \<^verbatim>\<open>AttributeError\<close> before
  any call is made for it.
\<close>

lemma main_loop_not_a_dict:
  "main_loop eng (PInt n # deployments) h = (Inl AttributeError, h)"
  by (simp add: raise_def)

text \<open>
  Claim C6. For every sequence of deployment dictionaries the loop completes with one
  log entry per deployment, in order. The entry of the i-th deployment is the outcome of
  \<^const>\<open>deploy_container\<close> on it, applied after the requests of the deployments before it.
  The engine calls of the whole loop are the requests of the deployments, in order: they
  do not depend on the engine's answers, so a failed deployment changes nothing in the
  calls made for the later ones, and nothing is retried or undone.
\<close>

theorem main_loop_applies_each_in_order:
  "snd (main_loop eng (map PDict cfgs) h) = h @ concat (map deploy_requests cfgs)
   \<and> (\<exists>entries.
         fst (main_loop eng (map PDict cfgs) h) = Inr entries
         \<and> length entries = length cfgs
         \<and> (\<forall>i<length cfgs. \<exists>r.
              fst (deploy_container eng (cfgs ! i)
                     (h @ concat (map deploy_requests (take i cfgs)))) = Inr r
              \<and> entries ! i =
                  (dict_get_default (cfgs ! i) ''name'' (PStr ''unnamed''), outcome_of r)))"
proof -
  obtain entries where
    run: "main_loop eng (map PDict cfgs) h =
            (Inr entries, h @ concat (map deploy_requests cfgs))"
    and rest: "length entries = length cfgs"
      "\<forall>i<length cfgs. \<exists>r.
          fst (deploy_container eng (cfgs ! i)
                 (h @ concat (map deploy_requests (take i cfgs)))) = Inr r
          \<and> entries ! i = (dict_get_default (cfgs ! i) ''name'' (PStr ''unnamed''), outcome_of r)"
    using main_loop_rounds [of eng cfgs h] by blast
  from run have "snd (main_loop eng (map PDict cfgs) h) = h @ concat (map deploy_requests cfgs)"
    and "fst (main_loop eng (map PDict cfgs) h) = Inr entries"
    by simp_all
  with rest show ?thesis by blast
qed

theorem main_loop_applies_each_in_order_witness:
  "snd (main_loop engine_flaky (map PDict [app1, app2]) []) =
      [Images_pull (PStr ''nginx:alpine''),
       Containers_run [(''image'', PStr ''nginx:alpine''), (''detach'', PBool True),
                       (''name'', PStr ''app1'')],
       Images_pull (PStr ''redis:alpine''),
       Containers_run [(''image'', PStr ''redis:alpine''), (''detach'', PBool True),
                       (''name'', PStr ''app2'')]]
   \<and> fst (main_loop engine_flaky (map PDict [app1, app2]) []) =
       Inr [(PStr ''app1'', Deployment_failed),
            (PStr ''app2'', Deployment_successful ''abc123def4567890abc123def4567890'')]
   \<and> fst (deploy_container engine_flaky ([app1, app2] ! 0) []) = Inr None
   \<and> fst (deploy_container engine_flaky ([app1, app2] ! 1)
            ([] @ concat (map deploy_requests (take 1 [app1, app2]))))
       = Inr (Some ''abc123def4567890abc123def4567890'')"
proof -
  note fact = main_loop_applies_each_in_order [of engine_flaky "[app1, app2]" "[]"]
  have calls: "snd (main_loop engine_flaky (map PDict [app1, app2]) []) =
      [Images_pull (PStr ''nginx:alpine''),
       Containers_run [(''image'', PStr ''nginx:alpine''), (''detach'', PBool True),
                       (''name'', PStr ''app1'')],
       Images_pull (PStr ''redis:alpine''),
       Containers_run [(''image'', PStr ''redis:alpine''), (''detach'', PBool True),
                       (''name'', PStr ''app2'')]]"
    using fact [THEN conjunct1]
    by (simp add: deploy_requests_def app1_def app2_def dict_get_def container_config_def Let_def
        del: main_loop.simps)
  from fact obtain entries where
    entries: "fst (main_loop engine_flaky (map PDict [app1, app2]) []) = Inr entries"
    and len: "length entries = length [app1, app2]"
    and each: "\<forall>i<length [app1, app2]. \<exists>r.
              fst (deploy_container engine_flaky ([app1, app2] ! i)
                     ([] @ concat (map deploy_requests (take i [app1, app2])))) = Inr r
              \<and> entries ! i =
                  (dict_get_default ([app1, app2] ! i) ''name'' (PStr ''unnamed''), outcome_of r)"
    by blast
  have first: "fst (deploy_container engine_flaky ([app1, app2] ! 0) []) = Inr None"
    by (simp add: app1_def deploy_container_truthy dict_get_def engine_flaky_def)
  have second: "fst (deploy_container engine_flaky ([app1, app2] ! 1)
            ([] @ concat (map deploy_requests (take 1 [app1, app2]))))
       = Inr (Some ''abc123def4567890abc123def4567890'')"
    by (simp add: app1_def app2_def deploy_container_truthy deploy_requests_def dict_get_def
        engine_flaky_def nginx_container_def Let_def)
  have e0: "entries ! 0 = (PStr ''app1'', Deployment_failed)"
    using each [rule_format, of 0] first
    by (auto simp: app1_def dict_get_default_def outcome_of_def)
  have e1: "entries ! 1 = (PStr ''app2'', Deployment_successful ''abc123def4567890abc123def4567890'')"
    using each [rule_format, of 1] second
    by (auto simp: app2_def dict_get_default_def outcome_of_def)
  have "entries = [entries ! 0, entries ! 1]"
    using len by (auto simp: list_eq_iff_nth_eq less_Suc_eq)
  with e0 e1
  have "entries = [(PStr ''app1'', Deployment_failed),
            (PStr ''app2'', Deployment_successful ''abc123def4567890abc123def4567890'')]"
    by simp
  with entries
  have "fst (main_loop engine_flaky (map PDict [app1, app2]) []) =
       Inr [(PStr ''app1'', Deployment_failed),
            (PStr ''app2'', Deployment_successful ''abc123def4567890abc123def4567890'')]"
    by (simp del: main_loop.simps)
  with calls first second show ?thesis by blast
qed

end
